theory Spec2Isabelle
  imports Main "HOL-Library.Word" "HOL-Library.Log_Nat"
begin

section \<open>Values of the Python runtime\<close>

text \<open>
  The client in \<^verbatim>\<open>examples/python/basic_staking.py\<close> moves parsed JSON
  between a remote staking service, a Solana RPC client and the terminal. This section
  models the values it handles and the few operations of the Python runtime it applies
  to them.
\<close>

subsection \<open>Floats\<close>

text \<open>
  A Python \<^verbatim>\<open>float\<close> is an IEEE 754 double. A finite double is carried by its exact
  rational value (the sign of zero is not distinguished); the infinities and NaN are
  values of their own.
\<close>

datatype pyfloat = Finite rat | PosInf | NegInf | NaN

definition pow2 :: "int \<Rightarrow> rat" where
  "pow2 e = (if 0 \<le> e then 2 ^ nat e else 1 / 2 ^ nat (- e))"

text \<open>The exponent \<open>e\<close> with \<open>2 ^ e \<le> x < 2 ^ (e + 1)\<close>, for a positive \<open>x\<close>.\<close>

definition floor_log2 :: "rat \<Rightarrow> int" where
  "floor_log2 x =
     (case quotient_of x of (p, q) \<Rightarrow>
        let d = bitlen p - bitlen q in if pow2 d \<le> x then d else d - 1)"

definition round_half_even :: "rat \<Rightarrow> int" where
  "round_half_even y =
     (let f = \<lfloor>y\<rfloor>; r = y - of_int f
      in if r < 1 / 2 then f else if 1 / 2 < r then f + 1
         else if even f then f else f + 1)"

text \<open>
  Rounding to the nearest double, ties to even: 53 significant bits, the exponent
  bounded below by that of the subnormal numbers. The result may exceed the largest
  double; the callers below decide what an overflow does.
\<close>

definition float_round :: "rat \<Rightarrow> rat" where
  "float_round x =
     (if x = 0 then 0
      else let u = pow2 (max (floor_log2 \<bar>x\<bar>) (- 1022) - 52)
           in of_int (round_half_even (x / u)) * u)"

definition float_overflows :: "rat \<Rightarrow> bool" where
  "float_overflows y = (2 ^ 1024 \<le> \<bar>y\<bar>)"

text \<open>Python's \<^verbatim>\<open>a < b\<close> on two floats: false as soon as one is NaN.\<close>

fun float_lt :: "pyfloat \<Rightarrow> pyfloat \<Rightarrow> bool" where
  "float_lt NaN _ = False"
| "float_lt _ NaN = False"
| "float_lt (Finite a) (Finite b) = (a < b)"
| "float_lt (Finite _) PosInf = True"
| "float_lt (Finite _) NegInf = False"
| "float_lt PosInf _ = False"
| "float_lt NegInf NegInf = False"
| "float_lt NegInf _ = True"

subsection \<open>Exceptions\<close>

text \<open>
  Every exception but the last is an instance of Python's \<^verbatim>\<open>Exception\<close>.
  \<open>LibraryError\<close> is whatever an external library raises as an \<^verbatim>\<open>Exception\<close>
  (a transport failure, a body that is not JSON, an invalid key); \<open>BaseSignal\<close> is a
  \<^verbatim>\<open>BaseException\<close> that is not an \<^verbatim>\<open>Exception\<close> (a cancellation, a
  keyboard interrupt), which \<^verbatim>\<open>except Exception\<close> does not catch.
\<close>

datatype exn =
    RuntimeError string
  | Exception string
  | KeyError string
  | TypeError
  | AttributeError
  | OverflowError
  | ZeroDivisionError
  | LibraryError string
  | BaseSignal string

fun is_Exception :: "exn \<Rightarrow> bool" where
  "is_Exception (BaseSignal _) = False"
| "is_Exception _ = True"

definition exn_bind :: "exn + 'a \<Rightarrow> ('a \<Rightarrow> exn + 'b) \<Rightarrow> exn + 'b" where
  "exn_bind r f = (case r of Inl e \<Rightarrow> Inl e | Inr x \<Rightarrow> f x)"

subsection \<open>JSON values\<close>

text \<open>
  What \<^verbatim>\<open>json.loads\<close> yields and \<^verbatim>\<open>json.dumps\<close> accepts. An object is an
  association list read with \<open>map_of\<close>: the first binding of a key is the one of the
  dictionary.
\<close>

datatype json =
    JNull
  | JBool bool
  | JInt int
  | JFloat pyfloat
  | JStr string
  | JArr "json list"
  | JObj "(string \<times> json) list"

text \<open>Truth value of a JSON value in a condition.\<close>

fun truthy :: "json \<Rightarrow> bool" where
  "truthy JNull = False"
| "truthy (JBool b) = b"
| "truthy (JInt n) = (n \<noteq> 0)"
| "truthy (JFloat x) = (x \<noteq> Finite 0)"
| "truthy (JStr s) = (s \<noteq> [])"
| "truthy (JArr xs) = (xs \<noteq> [])"
| "truthy (JObj kvs) = (kvs \<noteq> [])"

text \<open>\<^verbatim>\<open>v[k]\<close> with a string key: only a dictionary can be read that way.\<close>

fun py_getitem :: "json \<Rightarrow> string \<Rightarrow> exn + json" where
  "py_getitem (JObj kvs) k = (case map_of kvs k of None \<Rightarrow> Inl (KeyError k) | Some v \<Rightarrow> Inr v)"
| "py_getitem _ k = Inl TypeError"

text \<open>\<^verbatim>\<open>v.get(k, default)\<close>: only a dictionary has the method.\<close>

fun py_get :: "json \<Rightarrow> string \<Rightarrow> json \<Rightarrow> exn + json" where
  "py_get (JObj kvs) k dflt = (case map_of kvs k of None \<Rightarrow> Inr dflt | Some v \<Rightarrow> Inr v)"
| "py_get _ k dflt = Inl AttributeError"

text \<open>
  \<^verbatim>\<open>str(v)\<close>, as an f-string applies it: a string is itself, any other value is
  rendered by \<^verbatim>\<open>repr\<close>, which is a parameter here.
\<close>

fun py_str :: "(json \<Rightarrow> string) \<Rightarrow> json \<Rightarrow> string" where
  "py_str rp (JStr s) = s"
| "py_str rp v = rp v"

text \<open>Numbers as the arithmetic operators see them: a bool is the integer 0 or 1.\<close>

datatype pynum = PInt int | PFloat pyfloat

fun as_num :: "json \<Rightarrow> pynum option" where
  "as_num (JBool b) = Some (PInt (if b then 1 else 0))"
| "as_num (JInt n) = Some (PInt n)"
| "as_num (JFloat x) = Some (PFloat x)"
| "as_num _ = None"

text \<open>\<^verbatim>\<open>float(n)\<close> for an integer, as mixed arithmetic converts it.\<close>

definition int_to_float :: "int \<Rightarrow> exn + pyfloat" where
  "int_to_float n =
     (let y = float_round (of_int n)
      in if float_overflows y then Inl OverflowError else Inr (Finite y))"

text \<open>The value of an exact result: rounded, an infinity when out of range.\<close>

definition float_of_exact :: "rat \<Rightarrow> pyfloat" where
  "float_of_exact x =
     (let y = float_round x
      in if float_overflows y then (if 0 < y then PosInf else NegInf) else Finite y)"

fun float_add :: "pyfloat \<Rightarrow> pyfloat \<Rightarrow> pyfloat" where
  "float_add NaN _ = NaN"
| "float_add _ NaN = NaN"
| "float_add (Finite a) (Finite b) = float_of_exact (a + b)"
| "float_add PosInf NegInf = NaN"
| "float_add NegInf PosInf = NaN"
| "float_add PosInf _ = PosInf"
| "float_add NegInf _ = NegInf"
| "float_add _ PosInf = PosInf"
| "float_add _ NegInf = NegInf"

text \<open>\<^verbatim>\<open>a + b\<close> on two JSON values.\<close>

definition py_add :: "json \<Rightarrow> json \<Rightarrow> exn + json" where
  "py_add a b =
     (case (as_num a, as_num b) of
        (Some (PInt m), Some (PInt n)) \<Rightarrow> Inr (JInt (m + n))
      | (Some (PInt m), Some (PFloat y)) \<Rightarrow>
          exn_bind (int_to_float m) (\<lambda>x. Inr (JFloat (float_add x y)))
      | (Some (PFloat x), Some (PInt n)) \<Rightarrow>
          exn_bind (int_to_float n) (\<lambda>y. Inr (JFloat (float_add x y)))
      | (Some (PFloat x), Some (PFloat y)) \<Rightarrow> Inr (JFloat (float_add x y))
      | _ \<Rightarrow>
          (case (a, b) of
             (JStr s, JStr t) \<Rightarrow> Inr (JStr (s @ t))
           | (JArr xs, JArr ys) \<Rightarrow> Inr (JArr (xs @ ys))
           | _ \<Rightarrow> Inl TypeError))"

text \<open>
  \<^verbatim>\<open>v / d\<close> for a positive integer constant \<open>d\<close>: true division. On two integers
  the quotient is rounded once and an overflow raises; a float divided by the (exactly
  representable) constant is rounded likewise.
\<close>

definition py_truediv :: "json \<Rightarrow> int \<Rightarrow> exn + pyfloat" where
  "py_truediv v d =
     (case as_num v of
        Some (PInt n) \<Rightarrow>
          if d = 0 then Inl ZeroDivisionError
          else let y = float_round (of_int n / of_int d)
               in if float_overflows y then Inl OverflowError else Inr (Finite y)
      | Some (PFloat x) \<Rightarrow>
          exn_bind (int_to_float d) (\<lambda>dd.
            case dd of
              Finite c \<Rightarrow>
                if c = 0 then Inl ZeroDivisionError
                else (case x of Finite a \<Rightarrow> Inr (float_of_exact (a / c))
                      | PosInf \<Rightarrow> Inr (if 0 < c then PosInf else NegInf)
                      | NegInf \<Rightarrow> Inr (if 0 < c then NegInf else PosInf)
                      | NaN \<Rightarrow> Inr NaN)
            | _ \<Rightarrow> Inr NaN)
      | None \<Rightarrow> Inl TypeError)"

section \<open>External collaborators and effects\<close>

text \<open>
  Keys, transactions and the HTTP response are objects of the wrapped libraries.
  A public key is carried by its base58 text, which is what \<^verbatim>\<open>str\<close> returns for
  it; a transaction by its wire bytes; a response by its status code and by what
  \<^verbatim>\<open>await response.json()\<close> gives, which may be an exception.
\<close>

type_synonym bytes = "8 word list"

datatype pubkey = PublicKey string

fun pubkey_str :: "pubkey \<Rightarrow> string" where
  "pubkey_str (PublicKey s) = s"

record keypair =
  public_key :: pubkey
  secret_key :: bytes

type_synonym transaction = bytes

datatype async_client = AsyncClient string

record response =
  status :: nat
  json_result :: "exn + json"

text \<open>\<^verbatim>\<open>response.ok\<close> of aiohttp: the status is below 400.\<close>

definition ok :: "response \<Rightarrow> bool" where
  "ok r = (status r < 400)"

text \<open>The lines the program prints, each with the values it interpolates.\<close>

datatype log_line =
    LogBuilding pyfloat
  | LogBuilt
  | LogStakeAccount json
  | LogValidator json
  | LogEstimatedApy json
  | LogTotalFees json
  | LogSigned
  | LogSuccess
  | LogTxLink json
  | LogStakeLink json
  | LogStakingFailed exn
  | LogHealthy json
  | LogUnhealthy
  | LogMissingEnv
  | LogBalance pyfloat
  | LogInsufficient pyfloat
  | LogComplete
  | LogResult json
  | LogError exn

text \<open>
  What a run does to the outside, in order: the session opened and closed, each HTTP
  request with its URL, headers and JSON body, each call of the RPC client, the signing
  of a transaction, each printed line.
\<close>

datatype event =
    SessionOpen
  | SessionClose
  | HttpPost string "(string \<times> string) list" json
  | HttpGet string
  | RpcGetBalance async_client pubkey
  | RpcSend async_client transaction
  | RpcConfirm async_client json
  | RpcClose async_client
  | Sign transaction keypair
  | Print log_line

text \<open>
  The world a run meets: the environment variables and the answer of every external
  call, an exception (\<open>Inl\<close>) or a value. The functions of the program are
  stated for every world.
\<close>

record world =
  getenv :: "string \<Rightarrow> string option"
  session_post :: "string \<Rightarrow> (string \<times> string) list \<Rightarrow> json \<Rightarrow> exn + response"
  session_get :: "string \<Rightarrow> exn + response"
  session_close :: "exn + unit"
  get_balance :: "async_client \<Rightarrow> pubkey \<Rightarrow> exn + json"
  send_transaction :: "async_client \<Rightarrow> transaction \<Rightarrow> exn + json"
  confirm_transaction :: "async_client \<Rightarrow> json \<Rightarrow> exn + unit"
  client_close :: "async_client \<Rightarrow> exn + unit"
  b64decode :: "json \<Rightarrow> exn + bytes"
  deserialize :: "bytes \<Rightarrow> exn + transaction"
  sign :: "transaction \<Rightarrow> keypair \<Rightarrow> exn + transaction"
  from_secret_key :: "bytes \<Rightarrow> exn + keypair"
  repr :: "json \<Rightarrow> string"

text \<open>
  A computation returns an exception or a value, and the events it caused. Sequencing
  stops at the first exception and keeps the events so far.
\<close>

type_synonym 'a io = "(exn + 'a) \<times> event list"

definition io_return :: "'a \<Rightarrow> 'a io" where
  "io_return x = (Inr x, [])"

definition io_raise :: "exn \<Rightarrow> 'a io" where
  "io_raise e = (Inl e, [])"

definition io_lift :: "exn + 'a \<Rightarrow> 'a io" where
  "io_lift r = (r, [])"

definition io_call :: "event \<Rightarrow> exn + 'a \<Rightarrow> 'a io" where
  "io_call ev r = (r, [ev])"

definition print :: "log_line \<Rightarrow> unit io" where
  "print l = (Inr (), [Print l])"

definition io_bind :: "'a io \<Rightarrow> ('a \<Rightarrow> 'b io) \<Rightarrow> 'b io" where
  "io_bind m f =
     (case m of
        (Inl e, t) \<Rightarrow> (Inl e, t)
      | (Inr x, t) \<Rightarrow> (case f x of (r, t') \<Rightarrow> (r, t @ t')))"

text \<open>
  \<^verbatim>\<open>try: m finally: fin\<close>, and the exit of a \<^verbatim>\<open>with\<close> block whose
  \<^verbatim>\<open>__aexit__\<close> returns nothing: \<open>fin\<close> runs on every outcome of \<open>m\<close>; an
  exception of \<open>fin\<close> replaces that outcome, otherwise the outcome stands.
\<close>

definition io_finally :: "'a io \<Rightarrow> unit io \<Rightarrow> 'a io" where
  "io_finally m fin =
     (case m of (r, t) \<Rightarrow>
        (case fin of
           (Inl e, t') \<Rightarrow> (Inl e, t @ t')
         | (Inr _, t') \<Rightarrow> (r, t @ t')))"

text \<open>
  \<^verbatim>\<open>try: m except Exception as error: print(line(error)); raise\<close>: an
  \<^verbatim>\<open>Exception\<close> is printed and raised again; any other exception passes through.
\<close>

definition io_log_reraise :: "'a io \<Rightarrow> (exn \<Rightarrow> log_line) \<Rightarrow> 'a io" where
  "io_log_reraise m line =
     (case m of
        (Inl e, t) \<Rightarrow> if is_Exception e then (Inl e, t @ [Print (line e)]) else (Inl e, t)
      | (Inr x, t) \<Rightarrow> (Inr x, t))"

section \<open>The client\<close>

datatype client_session = ClientSession

record client =
  api_key :: string
  base_url :: string
  session :: "client_session option"

text \<open>\<^verbatim>\<open>s.rstrip('/')\<close>\<close>

definition rstrip_slash :: "string \<Rightarrow> string" where
  "rstrip_slash s = rev (dropWhile (\<lambda>c. c = CHR ''/'') (rev s))"

definition default_base_url :: string where
  "default_base_url = ''https://staking-api.phase.com''"

text \<open>
  \<^verbatim>\<open>PhaseStakingClient.__init__\<close>, \<^verbatim>\<open>__aenter__\<close> and \<^verbatim>\<open>__aexit__\<close>. A client
  starts without a session; entering the \<^verbatim>\<open>async with\<close> block creates one, leaving
  the block closes it when there is one. Constructing the client, the session or the RPC
  client, and printing a line, are taken to return normally.
\<close>

definition init_client :: "string \<Rightarrow> string \<Rightarrow> client" where
  "init_client key url = \<lparr>api_key = key, base_url = rstrip_slash url, session = None\<rparr>"

definition aenter :: "client \<Rightarrow> client io" where
  "aenter self = (Inr (self\<lparr>session := Some ClientSession\<rparr>), [SessionOpen])"

definition aexit :: "world \<Rightarrow> client \<Rightarrow> unit io" where
  "aexit w self =
     (if session self \<noteq> None then io_call SessionClose (session_close w)
      else io_return ())"

text \<open>\<^verbatim>\<open>async with self as c: body(c)\<close>\<close>

definition async_with :: "world \<Rightarrow> client \<Rightarrow> (client \<Rightarrow> 'a io) \<Rightarrow> 'a io" where
  "async_with w self body =
     io_bind (aenter self) (\<lambda>c. io_finally (body c) (aexit w c))"

text \<open>
  \<^verbatim>\<open>PhaseStakingClient.build_stake_transaction\<close>: the usage error without a session;
  otherwise the request, the parsed body, then the API error for a non-success status or
  the \<^verbatim>\<open>data\<close> of the body.
\<close>

definition not_initialized :: exn where
  "not_initialized = RuntimeError ''Client not initialized. Use 'async with' context manager.''"

definition build_stake_transaction ::
  "world \<Rightarrow> client \<Rightarrow> pubkey \<Rightarrow> pyfloat \<Rightarrow> pubkey option \<Rightarrow> json io" where
  "build_stake_transaction w self agent_wallet stake_amount validator_vote_account =
     (if session self = None then io_raise not_initialized
      else
        let endpoint = base_url self @ ''/stake/build'';
            payload = [(''agentWallet'', JStr (pubkey_str agent_wallet)),
                       (''stakeAmount'', JFloat stake_amount)];
            payload = (case validator_vote_account of
                         None \<Rightarrow> payload
                       | Some v \<Rightarrow> payload @ [(''validatorVoteAccount'', JStr (pubkey_str v))]);
            headers = [(''Content-Type'', ''application/json''),
                       (''Authorization'', ''Bearer '' @ api_key self)]
        in io_bind (io_call (HttpPost endpoint headers (JObj payload))
                      (session_post w endpoint headers (JObj payload))) (\<lambda>response.
           io_bind (io_lift (json_result response)) (\<lambda>result.
           if \<not> ok response then
             io_bind (io_lift (py_get result ''error'' (JObj []))) (\<lambda>err.
             io_bind (io_lift (py_get err ''message'' (JStr ''Unknown API error''))) (\<lambda>error_msg.
             io_raise (Exception (''API Error: '' @ py_str (repr w) error_msg))))
           else io_lift (py_getitem result ''data''))))"

text \<open>\<^verbatim>\<open>transaction_data['metadata'][k]\<close>\<close>

definition metadata_field :: "json \<Rightarrow> string \<Rightarrow> exn + json" where
  "metadata_field transaction_data k =
     exn_bind (py_getitem transaction_data ''metadata'') (\<lambda>m. py_getitem m k)"

text \<open>
  The body of the \<^verbatim>\<open>try\<close> block of \<^verbatim>\<open>execute_staking\<close>, in two parts:
  what follows the build (the prints of step 1 and steps 2 to 5, then the returned
  dictionary), given the data the build returned, and the build followed by it.
\<close>

definition execute_staking_after_build ::
  "world \<Rightarrow> async_client \<Rightarrow> keypair \<Rightarrow> json \<Rightarrow> json io" where
  "execute_staking_after_build w solana_client agent_keypair transaction_data =
     io_bind (print LogBuilt) (\<lambda>_.
     io_bind (io_lift (metadata_field transaction_data ''stakeAccount'')) (\<lambda>a.
     io_bind (print (LogStakeAccount a)) (\<lambda>_.
     io_bind (io_lift (metadata_field transaction_data ''validator'')) (\<lambda>v.
     io_bind (print (LogValidator v)) (\<lambda>_.
     io_bind (io_lift (metadata_field transaction_data ''estimatedApy'')) (\<lambda>y.
     io_bind (print (LogEstimatedApy y)) (\<lambda>_.
     io_bind (io_lift (metadata_field transaction_data ''fees'')) (\<lambda>fees.
     io_bind (io_lift (py_getitem fees ''transactionFee'')) (\<lambda>transaction_fee.
     io_bind (io_lift (py_getitem fees ''rakeFee'')) (\<lambda>rake_fee.
     io_bind (io_lift (py_add transaction_fee rake_fee)) (\<lambda>total_fees.
     io_bind (print (LogTotalFees total_fees)) (\<lambda>_.
     io_bind (io_lift (exn_bind (py_getitem transaction_data ''transaction'')
                (\<lambda>t. py_getitem t ''serialized''))) (\<lambda>serialized_tx.
     io_bind (io_lift (b64decode w serialized_tx)) (\<lambda>transaction_bytes.
     io_bind (io_lift (deserialize w transaction_bytes)) (\<lambda>unsigned.
     io_bind (io_call (Sign unsigned agent_keypair) (sign w unsigned agent_keypair)) (\<lambda>transaction.
     io_bind (print LogSigned) (\<lambda>_.
     io_bind (io_call (RpcSend solana_client transaction)
                (send_transaction w solana_client transaction)) (\<lambda>response.
     io_bind (io_lift (py_getitem response ''result'')) (\<lambda>signature.
     io_bind (io_call (RpcConfirm solana_client signature)
                (confirm_transaction w solana_client signature)) (\<lambda>_.
     io_bind (print LogSuccess) (\<lambda>_.
     io_bind (print (LogTxLink signature)) (\<lambda>_.
     io_bind (io_lift (metadata_field transaction_data ''stakeAccount'')) (\<lambda>a.
     io_bind (print (LogStakeLink a)) (\<lambda>_.
     io_bind (io_lift (metadata_field transaction_data ''stakeAccount'')) (\<lambda>stake_account.
     io_bind (io_lift (metadata_field transaction_data ''validator'')) (\<lambda>validator.
     io_bind (io_lift (metadata_field transaction_data ''estimatedApy'')) (\<lambda>estimated_apy.
     io_return (JObj [(''signature'', signature),
                      (''stake_account'', stake_account),
                      (''validator'', validator),
                      (''estimated_apy'', estimated_apy)]))))))))))))))))))))))))))))"

definition execute_staking_steps ::
  "world \<Rightarrow> client \<Rightarrow> async_client \<Rightarrow> keypair \<Rightarrow> pyfloat \<Rightarrow> pubkey option \<Rightarrow> json io" where
  "execute_staking_steps w self solana_client agent_keypair stake_amount validator_vote_account =
     io_bind (build_stake_transaction w self (public_key agent_keypair) stake_amount
                validator_vote_account)
       (execute_staking_after_build w solana_client agent_keypair)"

text \<open>
  \<^verbatim>\<open>PhaseStakingClient.execute_staking\<close>: the first line is printed outside the
  \<^verbatim>\<open>try\<close>; the handler prints an \<^verbatim>\<open>Exception\<close> and raises it again.
\<close>

definition execute_staking ::
  "world \<Rightarrow> client \<Rightarrow> async_client \<Rightarrow> keypair \<Rightarrow> pyfloat \<Rightarrow> pubkey option \<Rightarrow> json io" where
  "execute_staking w self solana_client agent_keypair stake_amount validator_vote_account =
     io_bind (print (LogBuilding stake_amount)) (\<lambda>_.
     io_log_reraise
       (execute_staking_steps w self solana_client agent_keypair stake_amount
          validator_vote_account)
       LogStakingFailed)"

text \<open>
  The condition of \<^verbatim>\<open>check_health\<close>:
  \<^verbatim>\<open>response.ok and result.get("success") and result.get("data", {}).get("status") == "healthy"\<close>,
  evaluated from left to right, a later operand only when the earlier ones are true.
\<close>

definition health_condition :: "response \<Rightarrow> json \<Rightarrow> exn + bool" where
  "health_condition response result =
     (if \<not> ok response then Inr False
      else exn_bind (py_get result ''success'' JNull) (\<lambda>success.
           if \<not> truthy success then Inr False
           else exn_bind (py_get result ''data'' (JObj [])) (\<lambda>data.
                exn_bind (py_get data ''status'' JNull) (\<lambda>st.
                Inr (st = JStr ''healthy'')))))"

text \<open>
  \<^verbatim>\<open>PhaseStakingClient.check_health\<close>: the usage error without a session; otherwise
  the request, the parsed body, the condition, and on a healthy answer the latency read
  for the printed line.
\<close>

definition check_health :: "world \<Rightarrow> client \<Rightarrow> bool io" where
  "check_health w self =
     (if session self = None then io_raise not_initialized
      else
        io_bind (io_call (HttpGet (base_url self @ ''/health''))
                   (session_get w (base_url self @ ''/health''))) (\<lambda>response.
        io_bind (io_lift (json_result response)) (\<lambda>result.
        io_bind (io_lift (health_condition response result)) (\<lambda>healthy.
        if healthy then
          io_bind (io_lift
                     (exn_bind (py_getitem result ''data'') (\<lambda>d.
                      exn_bind (py_getitem d ''checks'') (\<lambda>c.
                      exn_bind (py_getitem c ''solana'') (\<lambda>s.
                      py_getitem s ''latency''))))) (\<lambda>latency.
          io_bind (print (LogHealthy latency)) (\<lambda>_.
          io_return True))
        else
          io_bind (print LogUnhealthy) (\<lambda>_.
          io_return False)))))"

section \<open>The example workflow\<close>

text \<open>A float literal of the source text.\<close>

definition float_literal :: "rat \<Rightarrow> pyfloat" where
  "float_literal x = Finite (float_round x)"

definition default_rpc_url :: string where
  "default_rpc_url = ''https://api.mainnet-beta.solana.com''"

text \<open>The body of the \<^verbatim>\<open>async with\<close> block of \<^verbatim>\<open>main\<close>.\<close>

definition main_steps :: "world \<Rightarrow> string \<Rightarrow> string \<Rightarrow> client \<Rightarrow> unit io" where
  "main_steps w rpc_url agent_private_key phase_client =
     (let solana_client = AsyncClient rpc_url in
      io_bind (io_lift (exn_bind (b64decode w (JStr agent_private_key)) (from_secret_key w)))
        (\<lambda>agent_keypair.
      io_bind (check_health w phase_client) (\<lambda>_.
      io_bind (io_call (RpcGetBalance solana_client (public_key agent_keypair))
                 (get_balance w solana_client (public_key agent_keypair))) (\<lambda>balance_response.
      io_bind (io_lift (exn_bind (py_getitem balance_response ''result'')
                 (\<lambda>r. py_getitem r ''value''))) (\<lambda>balance_lamports.
      io_bind (io_lift (py_truediv balance_lamports 1000000000)) (\<lambda>balance_sol.
      io_bind (print (LogBalance balance_sol)) (\<lambda>_.
      if float_lt balance_sol (float_literal (11 / 10)) then
        print (LogInsufficient balance_sol)
      else
        let stake_amount = float_literal 1 in
        io_bind (execute_staking w phase_client solana_client agent_keypair stake_amount None)
          (\<lambda>result.
        io_bind (print LogComplete) (\<lambda>_.
        print (LogResult result))))))))))"

text \<open>
  \<^verbatim>\<open>main\<close>: without both keys in the environment it prints a line and returns;
  otherwise the \<^verbatim>\<open>async with\<close> block runs inside
  \<^verbatim>\<open>try ... except Exception ... finally\<close>, the handler printing and raising again,
  the \<^verbatim>\<open>finally\<close> clause closing the RPC client.
\<close>

definition main :: "world \<Rightarrow> unit io" where
  "main w =
     (let api_key = getenv w ''PHASE_API_KEY'';
          rpc_url = (case getenv w ''SOLANA_RPC_URL'' of
                       None \<Rightarrow> default_rpc_url | Some u \<Rightarrow> u);
          agent_private_key = getenv w ''AGENT_PRIVATE_KEY''
      in case (api_key, agent_private_key) of
           (Some k, Some pk) \<Rightarrow>
             if k = [] \<or> pk = [] then print LogMissingEnv
             else
               io_finally
                 (io_log_reraise
                    (async_with w (init_client k default_base_url)
                       (main_steps w rpc_url pk))
                    LogError)
                 (io_call (RpcClose (AsyncClient rpc_url)) (client_close w (AsyncClient rpc_url)))
         | _ \<Rightarrow> print LogMissingEnv)"

section \<open>Observing a run\<close>

text \<open>The kinds of event the properties below count or exclude.\<close>

fun is_post :: "event \<Rightarrow> bool" where
  "is_post (HttpPost _ _ _) = True"
| "is_post _ = False"

fun is_sign :: "event \<Rightarrow> bool" where
  "is_sign (Sign _ _) = True"
| "is_sign _ = False"

fun is_send :: "event \<Rightarrow> bool" where
  "is_send (RpcSend _ _) = True"
| "is_send _ = False"

fun is_confirm :: "event \<Rightarrow> bool" where
  "is_confirm (RpcConfirm _ _) = True"
| "is_confirm _ = False"

text \<open>An event that uses the network session of the client.\<close>

fun uses_session :: "event \<Rightarrow> bool" where
  "uses_session (HttpPost _ _ _) = True"
| "uses_session (HttpGet _) = True"
| "uses_session _ = False"


section \<open>Concrete worlds\<close>

text \<open>
  A world in which every call succeeds, with the response shapes of the service
  (\<^verbatim>\<open>{data: {transaction: {serialized}, metadata: {...}}}\<close> for the build,
  \<^verbatim>\<open>{success, data: {status, checks: {solana: {latency}}}}\<close> for the health check),
  and a wallet holding the given number of lamports. The other worlds differ from it in
  one answer.
\<close>

definition example_keypair :: keypair where
  "example_keypair = \<lparr>public_key = PublicKey ''AgentWallet'', secret_key = [1, 2, 3]\<rparr>"

definition example_build_body :: json where
  "example_build_body =
     JObj [(''success'', JBool True),
           (''data'', JObj
              [(''transaction'', JObj [(''serialized'', JStr ''AQID'')]),
               (''metadata'', JObj
                  [(''stakeAccount'', JStr ''StakeAccount''),
                   (''validator'', JStr ''VoteAccount''),
                   (''estimatedApy'', JFloat (Finite (15 / 2))),
                   (''fees'', JObj [(''transactionFee'', JInt 5000),
                                    (''rakeFee'', JInt 1000)])])])]"

definition example_health_body :: json where
  "example_health_body =
     JObj [(''success'', JBool True),
           (''data'', JObj
              [(''status'', JStr ''healthy''),
               (''checks'', JObj [(''solana'', JObj [(''latency'', JInt 42)])])])]"

definition example_world :: "int \<Rightarrow> world" where
  "example_world lamports =
     \<lparr>getenv = map_of [(''PHASE_API_KEY'', ''secret''), (''AGENT_PRIVATE_KEY'', ''AQID'')],
      session_post = (\<lambda>_ _ _. Inr \<lparr>status = 200, json_result = Inr example_build_body\<rparr>),
      session_get = (\<lambda>_. Inr \<lparr>status = 200, json_result = Inr example_health_body\<rparr>),
      session_close = Inr (),
      get_balance = (\<lambda>_ _. Inr (JObj [(''result'', JObj [(''value'', JInt lamports)])])),
      send_transaction = (\<lambda>_ _. Inr (JObj [(''result'', JStr ''Signature'')])),
      confirm_transaction = (\<lambda>_ _. Inr ()),
      client_close = (\<lambda>_. Inr ()),
      b64decode = (\<lambda>_. Inr [1, 2, 3]),
      deserialize = (\<lambda>b. Inr b),
      sign = (\<lambda>t _. Inr (t @ [4])),
      from_secret_key = (\<lambda>_. Inr example_keypair),
      repr = (\<lambda>_. ''?'')\<rparr>"

text \<open>The build answers HTTP 400 with \<^verbatim>\<open>{error: {message: "rate limited"}}\<close>.\<close>

definition rate_limited_world :: world where
  "rate_limited_world =
     (example_world 2000000000)
       \<lparr>session_post := (\<lambda>_ _ _. Inr
          \<lparr>status = 400,
           json_result = Inr (JObj [(''error'', JObj [(''message'', JStr ''rate limited'')])])\<rparr>)\<rparr>"

text \<open>The health endpoint cannot be reached.\<close>

definition offline_world :: world where
  "offline_world =
     (example_world 2000000000)
       \<lparr>session_get := (\<lambda>_. Inl (LibraryError ''Cannot connect to host''))\<rparr>"




definition example_client :: client where
  "example_client = (init_client ''secret'' default_base_url)\<lparr>session := Some ClientSession\<rparr>"

section \<open>The health check as the specification words it\<close>

text \<open>
  The specification's reading of a healthy answer, to be compared with what
  \<open>check_health\<close> computes: the HTTP call succeeded, the body indicates success, and the
  status nested under \<^verbatim>\<open>data\<close> is exactly \<^verbatim>\<open>"healthy"\<close>.
\<close>

definition spec_healthy :: "response \<Rightarrow> bool" where
  "spec_healthy resp =
     (ok resp \<and>
      (case json_result resp of
         Inr (JObj body) \<Rightarrow>
           (case map_of body ''success'' of
              Some s \<Rightarrow> truthy s \<and>
                (case map_of body ''data'' of
                   Some (JObj d) \<Rightarrow> map_of d ''status'' = Some (JStr ''healthy'')
                 | _ \<Rightarrow> False)
            | None \<Rightarrow> False)
       | _ \<Rightarrow> False))"

section \<open>Rounding to a double\<close>

text \<open>
  The workflow compares \<^verbatim>\<open>balance_lamports / 1_000_000_000\<close> with the literal
  \<^verbatim>\<open>1.1\<close>, both doubles. For an integer number of lamports the comparison of the
  rounded values decides exactly whether the wallet holds fewer than 1 100 000 000
  lamports.
\<close>

lemma pow2_pos: "0 < pow2 e"
  by (simp add: pow2_def)

lemma pow2_add: "pow2 (a + b) = pow2 a * pow2 b"
proof -
  have "pow2 e = 2 powi e" for e
    by (simp add: pow2_def power_int_def field_simps)
  then show ?thesis by (simp add: power_int_add)
qed

lemma pow2_mono: "a \<le> b \<Longrightarrow> pow2 a \<le> pow2 b"
proof -
  have "pow2 e = 2 powi e" for e
    by (simp add: pow2_def power_int_def field_simps)
  then show "a \<le> b \<Longrightarrow> pow2 a \<le> pow2 b" by (simp add: power_int_increasing)
qed

lemma pow2_nat: "0 \<le> e \<Longrightarrow> pow2 e = 2 ^ nat e"
  by (simp add: pow2_def)

lemma floor_log2_bounds:
  assumes "0 < x"
  shows "pow2 (floor_log2 x) \<le> x \<and> x < pow2 (floor_log2 x + 1)"
proof -
  obtain p q where pq: "quotient_of x = (p, q)" by (cases "quotient_of x")
  then have q: "0 < q" by (rule quotient_of_denom_pos)
  have x: "x = of_int p / of_int q"
    using pq by (simp add: quotient_of_div)
  with assms q have p: "0 < p" by (simp add: zero_less_divide_iff)
  define d where "d = bitlen p - bitlen q"
  have bp: "1 \<le> bitlen p" and bq: "1 \<le> bitlen q"
    using p q bitlen_eq_zero_iff [of p] bitlen_eq_zero_iff [of q] bitlen_nonneg [of p]
      bitlen_nonneg [of q] by linarith+
  from bitlen_bounds [OF p] have "(2::int) ^ nat (bitlen p - 1) \<le> p" "p < 2 ^ nat (bitlen p)"
    by simp_all
  then have "(of_int ((2::int) ^ nat (bitlen p - 1)) :: rat) \<le> of_int p"
    "(of_int p :: rat) < of_int (2 ^ nat (bitlen p))"
    by (simp_all only: of_int_le_iff of_int_less_iff)
  then have pb: "pow2 (bitlen p - 1) \<le> of_int p" "of_int p < pow2 (bitlen p)"
    using bp by (simp_all add: pow2_nat)
  from bitlen_bounds [OF q] have "(2::int) ^ nat (bitlen q - 1) \<le> q" "q < 2 ^ nat (bitlen q)"
    by simp_all
  then have "(of_int ((2::int) ^ nat (bitlen q - 1)) :: rat) \<le> of_int q"
    "(of_int q :: rat) < of_int (2 ^ nat (bitlen q))"
    by (simp_all only: of_int_le_iff of_int_less_iff)
  then have qb: "pow2 (bitlen q - 1) \<le> of_int q" "of_int q < pow2 (bitlen q)"
    using bq by (simp_all add: pow2_nat)
  have qpos: "(0::rat) < of_int q" and ppos: "(0::rat) < of_int p" using p q by simp_all
  have lower: "pow2 (d - 1) < x"
  proof -
    have "pow2 (d - 1) * of_int q < pow2 (d - 1) * pow2 (bitlen q)"
      using qb(2) pow2_pos [of "d - 1"] by simp
    also have "\<dots> = pow2 (bitlen p - 1)"
      by (simp add: pow2_add [symmetric] d_def)
    also have "\<dots> \<le> of_int p" by (rule pb(1))
    finally show ?thesis using qpos by (simp add: x pos_less_divide_eq)
  qed
  have upper: "x < pow2 (d + 1)"
  proof -
    have "of_int p < pow2 (bitlen p)" by (rule pb(2))
    also have "\<dots> = pow2 (d + 1) * pow2 (bitlen q - 1)"
      by (simp add: pow2_add [symmetric] d_def)
    also have "\<dots> \<le> pow2 (d + 1) * of_int q"
      using qb(1) pow2_pos [of "d + 1"] by simp
    finally show ?thesis using qpos by (simp add: x pos_divide_less_eq)
  qed
  show ?thesis
    using lower upper by (auto simp: floor_log2_def pq d_def Let_def)
qed

lemma round_half_even_range:
  "\<lfloor>y\<rfloor> \<le> round_half_even y \<and> round_half_even y \<le> \<lfloor>y\<rfloor> + 1"
  by (simp add: round_half_even_def Let_def)

lemma round_half_even_mono:
  assumes "a \<le> b"
  shows "round_half_even a \<le> round_half_even b"
proof (cases "\<lfloor>a\<rfloor> < \<lfloor>b\<rfloor>")
  case True
  with round_half_even_range [of a] round_half_even_range [of b] show ?thesis by linarith
next
  case False
  with assms have "\<lfloor>a\<rfloor> = \<lfloor>b\<rfloor>" using floor_mono [of a b] by linarith
  with assms show ?thesis
    by (auto simp: round_half_even_def Let_def)
qed

lemma round_half_even_of_int [simp]: "round_half_even (of_int n) = n"
  by (simp add: round_half_even_def)

lemma round_half_even_zero [simp]: "round_half_even 0 = 0"
  by (simp add: round_half_even_def)

lemma pow2_split: "pow2 (e + 1) = pow2 53 * pow2 (e - 52)" "pow2 e = pow2 52 * pow2 (e - 52)"
  using pow2_add [of 53 "e - 52"] pow2_add [of 52 "e - 52"] by (simp_all add: add.commute)

text \<open>On the binade of 1 the rounding is that of the 52-bit fraction.\<close>

lemma float_round_unit_binade:
  assumes "1 \<le> x" "x < 2"
  shows "float_round x = of_int (round_half_even (x * 2 ^ 52)) / 2 ^ 52"
proof -
  have "0 < x" using assms by simp
  from floor_log2_bounds [OF this] have b: "pow2 (floor_log2 x) \<le> x" "x < pow2 (floor_log2 x + 1)"
    by simp_all
  have "floor_log2 x = 0"
  proof (rule ccontr)
    assume "floor_log2 x \<noteq> 0"
    then consider "floor_log2 x \<le> - 1" | "1 \<le> floor_log2 x" by linarith
    then show False
    proof cases
      case 1
      then have "pow2 (floor_log2 x + 1) \<le> pow2 0" by (intro pow2_mono) simp
      with b(2) assms show False by (simp add: pow2_def)
    next
      case 2
      then have "pow2 1 \<le> pow2 (floor_log2 x)" by (intro pow2_mono)
      with b(1) assms show False by (simp add: pow2_def)
    qed
  qed
  with assms show ?thesis
    by (simp add: float_round_def Let_def pow2_def)
qed

lemma float_round_nonpos:
  assumes "x \<le> 0"
  shows "float_round x \<le> 0"
proof (cases "x = 0")
  case True
  then show ?thesis by (simp add: float_round_def)
next
  case False
  define u where "u = pow2 (max (floor_log2 \<bar>x\<bar>) (- 1022) - 52)"
  have u: "0 < u" by (simp add: u_def pow2_pos)
  with assms have "x / u \<le> 0" by (simp add: divide_le_0_iff)
  then have "round_half_even (x / u) \<le> round_half_even 0"
    by (rule round_half_even_mono)
  then have "round_half_even (x / u) \<le> 0" by simp
  then have "(of_int (round_half_even (x / u)) :: rat) \<le> 0" by simp
  with u have "of_int (round_half_even (x / u)) * u \<le> 0"
    by (simp add: mult_le_0_iff)
  with False show ?thesis by (simp add: float_round_def Let_def u_def)
qed

lemma float_round_upper:
  assumes "0 < x" and e: "e = max (floor_log2 x) (- 1022)"
  shows "float_round x \<le> pow2 (e + 1)"
proof -
  define u where "u = pow2 (e - 52)"
  have u: "0 < u" by (simp add: u_def pow2_pos)
  have "x < pow2 (floor_log2 x + 1)" using floor_log2_bounds [OF assms(1)] by simp
  also have "\<dots> \<le> pow2 (e + 1)" by (intro pow2_mono) (simp add: e)
  also have "\<dots> = pow2 53 * u" by (simp add: u_def pow2_split(1))
  finally have "x / u \<le> of_int (2 ^ 53)" using u by (simp add: pos_divide_le_eq pow2_def)
  then have "round_half_even (x / u) \<le> round_half_even (of_int (2 ^ 53))"
    by (rule round_half_even_mono)
  then have "(of_int (round_half_even (x / u)) :: rat) \<le> of_int (2 ^ 53)"
    unfolding round_half_even_of_int by (simp only: of_int_le_iff)
  then have "of_int (round_half_even (x / u)) * u \<le> pow2 53 * u"
    using u by (simp add: pow2_def)
  also have "\<dots> = pow2 (e + 1)" by (simp add: u_def pow2_split(1))
  finally show ?thesis using assms by (simp add: float_round_def Let_def u_def)
qed

lemma float_round_lower:
  assumes "0 < x" and e: "e = floor_log2 x" "- 1022 \<le> e"
  shows "pow2 e \<le> float_round x"
proof -
  define u where "u = pow2 (e - 52)"
  have u: "0 < u" by (simp add: u_def pow2_pos)
  have "pow2 52 * u = pow2 e" by (simp add: u_def pow2_split(2) [symmetric])
  also have "\<dots> \<le> x" using floor_log2_bounds [OF assms(1)] e by simp
  finally have "of_int (2 ^ 52) \<le> x / u" using u by (simp add: pos_le_divide_eq pow2_def)
  then have "round_half_even (of_int (2 ^ 52)) \<le> round_half_even (x / u)"
    by (rule round_half_even_mono)
  then have "(of_int (2 ^ 52) :: rat) \<le> of_int (round_half_even (x / u))"
    unfolding round_half_even_of_int by (simp only: of_int_le_iff)
  then have "pow2 52 * u \<le> of_int (round_half_even (x / u)) * u"
    using u by (simp add: pow2_def)
  moreover have "pow2 52 * u = pow2 e" by (simp add: u_def pow2_split(2) [symmetric])
  moreover have "max (floor_log2 x) (- 1022) = e" using e by simp
  ultimately show ?thesis using assms(1) by (simp add: float_round_def Let_def u_def)
qed

lemma float_round_below_one:
  assumes "0 < x" "x < 1"
  shows "float_round x \<le> 1"
proof -
  have "floor_log2 x \<le> - 1"
  proof (rule ccontr)
    assume "\<not> floor_log2 x \<le> - 1"
    then have "pow2 0 \<le> pow2 (floor_log2 x)" by (intro pow2_mono) simp
    with floor_log2_bounds [OF assms(1)] assms(2) show False by (simp add: pow2_def)
  qed
  then have "pow2 (max (floor_log2 x) (- 1022) + 1) \<le> pow2 0"
    by (intro pow2_mono) simp
  with float_round_upper [OF assms(1) refl] show ?thesis by (simp add: pow2_def)
qed

lemma float_round_above_two:
  assumes "2 \<le> x"
  shows "2 \<le> float_round x"
proof -
  have pos: "0 < x" using assms by simp
  have "1 \<le> floor_log2 x"
  proof (rule ccontr)
    assume "\<not> 1 \<le> floor_log2 x"
    then have "pow2 (floor_log2 x + 1) \<le> pow2 1" by (intro pow2_mono) simp
    with floor_log2_bounds [OF pos] assms show False by (simp add: pow2_def)
  qed
  then have "pow2 1 \<le> pow2 (floor_log2 x)" "- 1022 \<le> floor_log2 x"
    by (simp_all add: pow2_mono)
  with float_round_lower [OF pos refl] show ?thesis by (simp add: pow2_def)
qed

lemma float_1_1: "float_round (11 / 10) = 2476979795053773 / 2251799813685248"
  by code_simp

text \<open>The threshold of the workflow, in lamports.\<close>

lemma below_threshold_iff:
  "float_round (of_int n / 1000000000) < float_round (11 / 10) \<longleftrightarrow> n < 1100000000"
proof -
  define x :: rat where "x = of_int n / 1000000000"
  consider "x \<le> 0" | "0 < x" "x < 1" | "1 \<le> x" "x < 2" | "2 \<le> x" by linarith
  then show ?thesis
  proof cases
    case 1
    then have "n \<le> 0" by (simp add: x_def divide_le_0_iff)
    with float_round_nonpos [OF 1] show ?thesis by (simp add: float_1_1 x_def)
  next
    case 2
    then have "n < 1000000000" by (simp add: x_def)
    with float_round_below_one [OF 2] show ?thesis by (simp add: float_1_1 x_def)
  next
    case 3
    then have n: "1000000000 \<le> n" "n < 2000000000" by (simp_all add: x_def)
    have fr: "float_round x = of_int (round_half_even (x * 2 ^ 52)) / 2 ^ 52"
      by (rule float_round_unit_binade [OF 3])
    show ?thesis
    proof (cases "n < 1100000000")
      case True
      then have "n \<le> 1099999999" by simp
      then have "x \<le> 1099999999 / 1000000000" by (simp add: x_def)
      then have "x * 2 ^ 52 \<le> 1099999999 / 1000000000 * 2 ^ 52" by simp
      then have "round_half_even (x * 2 ^ 52) \<le>
                 round_half_even (1099999999 / 1000000000 * 2 ^ 52)"
        by (rule round_half_even_mono)
      also have "round_half_even (1099999999 / 1000000000 * 2 ^ 52) = 4953959585603946"
        by code_simp
      finally have "(of_int (round_half_even (x * 2 ^ 52)) :: rat) \<le> of_int 4953959585603946"
        by (simp only: of_int_le_iff)
      with True show ?thesis by (simp add: fr float_1_1 x_def [symmetric] field_simps)
    next
      case False
      then have "1100000000 \<le> n" by simp
      then have "11 / 10 \<le> x" by (simp add: x_def)
      then have "11 / 10 * 2 ^ 52 \<le> x * 2 ^ 52" by simp
      then have "round_half_even (11 / 10 * 2 ^ 52) \<le> round_half_even (x * 2 ^ 52)"
        by (rule round_half_even_mono)
      moreover have "round_half_even (11 / 10 * 2 ^ 52) = 4953959590107546"
        by code_simp
      ultimately have "(of_int 4953959590107546 :: rat) \<le> of_int (round_half_even (x * 2 ^ 52))"
        by (simp only: of_int_le_iff)
      with False show ?thesis by (simp add: fr float_1_1 x_def [symmetric] field_simps)
    qed
  next
    case 4
    then have "2000000000 \<le> n" by (simp add: x_def)
    with float_round_above_two [OF 4] show ?thesis by (simp add: float_1_1 x_def)
  qed
qed

lemma balance_below_threshold_iff:
  assumes "py_truediv (JInt n) 1000000000 = Inr balance_sol"
  shows "float_lt balance_sol (float_literal (11 / 10)) \<longleftrightarrow> n < 1100000000"
proof -
  from assms have "balance_sol = Finite (float_round (of_int n / 1000000000))"
    by (auto simp: py_truediv_def Let_def split: if_splits)
  then show ?thesis
    by (simp add: float_literal_def below_threshold_iff)
qed

section \<open>Results and events of composed computations\<close>

lemma fst_io_bind:
  "fst (io_bind m f) = (case fst m of Inl e \<Rightarrow> Inl e | Inr x \<Rightarrow> fst (f x))"
  by (cases m) (auto simp: io_bind_def split: sum.splits prod.splits)

lemma snd_io_bind:
  "snd (io_bind m f) = snd m @ (case fst m of Inl e \<Rightarrow> [] | Inr x \<Rightarrow> snd (f x))"
  by (cases m) (auto simp: io_bind_def split: sum.splits prod.splits)

lemma io_basic [simp]:
  "fst (io_return x) = Inr x" "snd (io_return x) = []"
  "fst (io_raise e) = Inl e" "snd (io_raise e) = []"
  "fst (io_lift r) = r" "snd (io_lift r) = []"
  "fst (io_call ev r) = r" "snd (io_call ev r) = [ev]"
  "fst (print l) = Inr ()" "snd (print l) = [Print l]"
  by (simp_all add: io_return_def io_raise_def io_lift_def io_call_def print_def)

lemma fst_log_reraise [simp]: "fst (io_log_reraise m line) = fst m"
  by (cases m) (auto simp: io_log_reraise_def split: sum.splits)

lemma snd_log_reraise:
  "snd (io_log_reraise m line) =
     snd m @ (case fst m of
                Inl e \<Rightarrow> if is_Exception e then [Print (line e)] else []
              | Inr _ \<Rightarrow> [])"
  by (cases m) (auto simp: io_log_reraise_def split: sum.splits)

lemma fst_io_finally:
  "fst (io_finally m fin) = (case fst fin of Inl e \<Rightarrow> Inl e | Inr _ \<Rightarrow> fst m)"
  by (cases m; cases fin) (auto simp: io_finally_def split: sum.splits)

lemma snd_io_finally [simp]: "snd (io_finally m fin) = snd m @ snd fin"
  by (cases m; cases fin) (auto simp: io_finally_def split: sum.splits)

section \<open>Building the stake transaction\<close>

text \<open>The events of a build: nothing without a session, otherwise the one request.\<close>

lemma build_events:
  "snd (build_stake_transaction w self a amt v) =
     (if session self = None then []
      else [HttpPost (base_url self @ ''/stake/build'')
              [(''Content-Type'', ''application/json''),
               (''Authorization'', ''Bearer '' @ api_key self)]
              (JObj ([(''agentWallet'', JStr (pubkey_str a)), (''stakeAmount'', JFloat amt)] @
                     (case v of None \<Rightarrow> []
                      | Some x \<Rightarrow> [(''validatorVoteAccount'', JStr (pubkey_str x))])))])"
  by (auto simp: build_stake_transaction_def fst_io_bind snd_io_bind Let_def
           split: sum.splits option.splits)

text \<open>
  C7: called on a client whose session has not been initialized (no
  \<^verbatim>\<open>async with\<close> entered), \<open>build_stake_transaction\<close> raises the usage error, a
  \<^verbatim>\<open>RuntimeError\<close>, and causes no event at all: no network call is attempted.
\<close>

theorem build_before_initialization:
  "session self = None \<Longrightarrow>
   build_stake_transaction w self agent_wallet stake_amount validator_vote_account =
     (Inl (RuntimeError ''Client not initialized. Use 'async with' context manager.''), [])"
  by (simp add: build_stake_transaction_def io_raise_def not_initialized_def)

theorem build_before_initialization_witness:
  "session (init_client ''secret'' default_base_url) = None \<and>
   build_stake_transaction (example_world 0) (init_client ''secret'' default_base_url)
       (PublicKey ''AgentWallet'') (float_literal 1) None =
     (Inl (RuntimeError ''Client not initialized. Use 'async with' context manager.''), [])"
  using build_before_initialization
    [of "init_client ''secret'' default_base_url" "example_world 0"
        "PublicKey ''AgentWallet''" "float_literal 1" None]
  by (simp add: init_client_def)

text \<open>
  C8: every request \<open>build_stake_transaction\<close> makes is a POST to
  \<^verbatim>\<open>{base}/stake/build\<close> whose headers carry \<^verbatim>\<open>Authorization: Bearer <api key>\<close>
  and the JSON content type, and whose body is a JSON object with the wallet as
  \<^verbatim>\<open>agentWallet\<close>, the amount as \<^verbatim>\<open>stakeAmount\<close> and no other field but
  \<^verbatim>\<open>validatorVoteAccount\<close>, which is present exactly when a validator was given
  (and is then that validator). It is the only event of the call, and a call on an
  initialized client makes it.
\<close>

theorem build_request:
  "(session self \<noteq> None \<longrightarrow>
      snd (build_stake_transaction w self agent_wallet stake_amount validator) \<noteq> []) \<and>
   (\<forall>ev \<in> set (snd (build_stake_transaction w self agent_wallet stake_amount validator)).
      \<exists>headers payload.
        ev = HttpPost (base_url self @ ''/stake/build'') headers (JObj payload) \<and>
        snd (build_stake_transaction w self agent_wallet stake_amount validator) = [ev] \<and>
        map_of headers ''Authorization'' = Some (''Bearer '' @ api_key self) \<and>
        map_of headers ''Content-Type'' = Some ''application/json'' \<and>
        map_of payload ''agentWallet'' = Some (JStr (pubkey_str agent_wallet)) \<and>
        map_of payload ''stakeAmount'' = Some (JFloat stake_amount) \<and>
        (''validatorVoteAccount'' \<in> dom (map_of payload) \<longleftrightarrow> validator \<noteq> None) \<and>
        map_of payload ''validatorVoteAccount'' =
          map_option (\<lambda>v. JStr (pubkey_str v)) validator \<and>
        dom (map_of payload) \<subseteq> {''agentWallet'', ''stakeAmount'', ''validatorVoteAccount''})"
  by (auto simp: build_events split: option.splits if_splits)

theorem build_request_witness:
  "session example_client \<noteq> None \<and>
   snd (build_stake_transaction (example_world 0) example_client
          (PublicKey ''AgentWallet'') (Finite 1) (Some (PublicKey ''VoteAccount''))) =
     [HttpPost ''https://staking-api.phase.com/stake/build''
        [(''Content-Type'', ''application/json''), (''Authorization'', ''Bearer secret'')]
        (JObj [(''agentWallet'', JStr ''AgentWallet''), (''stakeAmount'', JFloat (Finite 1)),
               (''validatorVoteAccount'', JStr ''VoteAccount'')])]"
  using build_request [of example_client "example_world 0" "PublicKey ''AgentWallet''"
                          "Finite 1" "Some (PublicKey ''VoteAccount'')"]
  by (simp add: build_events example_client_def init_client_def default_base_url_def
        rstrip_slash_def)

text \<open>
  C2, as stated, fails at its own scenario: for an HTTP 400 answer with the body
  \<^verbatim>\<open>{error: {message: "rate limited"}}\<close> the exception raised carries the message
  \<^verbatim>\<open>API Error: rate limited\<close>, not \<^verbatim>\<open>rate limited\<close>.
\<close>

theorem build_error_message_counterexample:
  "\<not> ok \<lparr>status = 400,
          json_result = Inr (JObj [(''error'', JObj [(''message'', JStr ''rate limited'')])])\<rparr> \<and>
   session_post rate_limited_world ''https://staking-api.phase.com/stake/build''
       [(''Content-Type'', ''application/json''), (''Authorization'', ''Bearer secret'')]
       (JObj [(''agentWallet'', JStr ''AgentWallet''), (''stakeAmount'', JFloat (Finite 1))]) =
     Inr \<lparr>status = 400,
          json_result = Inr (JObj [(''error'', JObj [(''message'', JStr ''rate limited'')])])\<rparr> \<and>
   fst (build_stake_transaction rate_limited_world example_client
          (PublicKey ''AgentWallet'') (Finite 1) None) =
     Inl (Exception ''API Error: rate limited'') \<and>
   fst (build_stake_transaction rate_limited_world example_client
          (PublicKey ''AgentWallet'') (Finite 1) None) \<noteq>
     Inl (Exception ''rate limited'')"
  by (simp add: build_stake_transaction_def rate_limited_world_def example_world_def
        example_client_def init_client_def fst_io_bind ok_def)

text \<open>
  C2, amended: when the service answers the build request with a non-success status
  (400 or above) and a body that is a JSON object, \<open>build_stake_transaction\<close> raises a
  plain \<^verbatim>\<open>Exception\<close> whose message is \<^verbatim>\<open>API Error: \<close> followed by the
  server's message, verbatim when that message is a string (by its \<^verbatim>\<open>repr\<close>
  otherwise), the \<^verbatim>\<open>error\<close> field being an object that holds it; the message is
  \<^verbatim>\<open>API Error: Unknown API error\<close> when the \<^verbatim>\<open>error\<close> field or its
  \<^verbatim>\<open>message\<close> is absent.
\<close>

theorem build_error_message:
  assumes "session self \<noteq> None"
    and "\<And>u h b. session_post w u h b = Inr resp"
    and "\<not> ok resp"
    and "json_result resp = Inr (JObj body)"
  shows "(\<forall>err m. map_of body ''error'' = Some (JObj err) \<and>
                  map_of err ''message'' = Some (JStr m) \<longrightarrow>
            fst (build_stake_transaction w self agent_wallet stake_amount validator) =
              Inl (Exception (''API Error: '' @ m)))
       \<and> (\<forall>err v. map_of body ''error'' = Some (JObj err) \<and>
                  map_of err ''message'' = Some v \<and> (\<forall>m. v \<noteq> JStr m) \<longrightarrow>
            fst (build_stake_transaction w self agent_wallet stake_amount validator) =
              Inl (Exception (''API Error: '' @ repr w v)))
       \<and> (map_of body ''error'' = None \<or>
            (\<exists>err. map_of body ''error'' = Some (JObj err) \<and> map_of err ''message'' = None) \<longrightarrow>
            fst (build_stake_transaction w self agent_wallet stake_amount validator) =
              Inl (Exception ''API Error: Unknown API error''))"
proof -
  have run: "fst (build_stake_transaction w self agent_wallet stake_amount validator) =
      exn_bind (py_get (JObj body) ''error'' (JObj [])) (\<lambda>err.
      exn_bind (py_get err ''message'' (JStr ''Unknown API error'')) (\<lambda>error_msg.
      Inl (Exception (''API Error: '' @ py_str (repr w) error_msg))))"
    using assms
    by (auto simp: build_stake_transaction_def fst_io_bind exn_bind_def Let_def
             split: sum.splits)
  have other: "py_str (repr w) v = repr w v" if "\<forall>m. v \<noteq> JStr m" for v
    using that by (cases v) simp_all
  show ?thesis
    unfolding run by (auto simp: exn_bind_def other)
qed

theorem build_error_message_witness:
  "session example_client \<noteq> None \<and>
   \<not> ok \<lparr>status = 400,
          json_result = Inr (JObj [(''error'', JObj [(''message'', JStr ''rate limited'')])])\<rparr> \<and>
   fst (build_stake_transaction rate_limited_world example_client
          (PublicKey ''AgentWallet'') (Finite 1) None) =
     Inl (Exception ''API Error: rate limited'')"
  using build_error_message [of example_client rate_limited_world
     "\<lparr>status = 400,
       json_result = Inr (JObj [(''error'', JObj [(''message'', JStr ''rate limited'')])])\<rparr>"
     "[(''error'', JObj [(''message'', JStr ''rate limited'')])]"
     "PublicKey ''AgentWallet''" "Finite 1" None]
  by (simp add: rate_limited_world_def example_world_def example_client_def ok_def)

section \<open>The health check\<close>

lemma health_condition_value:
  "json_result resp = Inr result \<Longrightarrow> health_condition resp result = Inr b \<Longrightarrow>
   b = spec_healthy resp"
  by (cases result)
     (auto simp: health_condition_def spec_healthy_def exn_bind_def
           split: if_splits option.splits json.splits sum.splits)

lemma health_condition_total:
  "json_result resp = Inr (JObj body) \<Longrightarrow>
   map_of body ''data'' = None \<or> (\<exists>d. map_of body ''data'' = Some (JObj d)) \<Longrightarrow>
   health_condition resp (JObj body) = Inr (spec_healthy resp)"
  by (auto simp: health_condition_def spec_healthy_def exn_bind_def
           split: if_splits option.splits json.splits sum.splits)

lemma health_condition_not_ok:
  "\<not> ok resp \<Longrightarrow> health_condition resp result = Inr False"
  by (simp add: health_condition_def)

lemma check_health_unfold:
  "session self \<noteq> None \<Longrightarrow> session_get w (base_url self @ ''/health'') = Inr resp \<Longrightarrow>
   json_result resp = Inr result \<Longrightarrow>
   fst (check_health w self) =
     (case health_condition resp result of
        Inl e \<Rightarrow> Inl e
      | Inr True \<Rightarrow>
          (case exn_bind (py_getitem result ''data'') (\<lambda>d.
                exn_bind (py_getitem d ''checks'') (\<lambda>c.
                exn_bind (py_getitem c ''solana'') (\<lambda>s.
                py_getitem s ''latency''))) of Inl e \<Rightarrow> Inl e | Inr _ \<Rightarrow> Inr True)
      | Inr False \<Rightarrow> Inr False)"
  by (auto simp: check_health_def fst_io_bind split: sum.splits bool.splits)

text \<open>The events of a health check: at most the one GET, then at most one printed line.\<close>

lemma check_health_events:
  "\<forall>ev \<in> set (snd (check_health w self)).
     ev = HttpGet (base_url self @ ''/health'') \<or> (\<exists>l. ev = Print l)"
  by (auto simp: check_health_def fst_io_bind snd_io_bind split: sum.splits if_splits)

text \<open>
  C3, as stated, fails: when the health endpoint cannot be reached, the exception of the
  HTTP library leaves \<open>check_health\<close>; no \<^verbatim>\<open>False\<close> is returned.
\<close>

theorem check_health_counterexample:
  "session example_client \<noteq> None \<and>
   session_get offline_world ''https://staking-api.phase.com/health'' =
     Inl (LibraryError ''Cannot connect to host'') \<and>
   check_health offline_world example_client =
     (Inl (LibraryError ''Cannot connect to host''),
      [HttpGet ''https://staking-api.phase.com/health'']) \<and>
   fst (check_health offline_world example_client) \<noteq> Inr False"
  by (simp add: check_health_def offline_world_def example_world_def example_client_def
        init_client_def default_base_url_def rstrip_slash_def
        io_call_def io_bind_def)

text \<open>
  C3, amended: on an initialized client, whenever \<open>check_health\<close> returns, it returns
  true if and only if the HTTP call succeeded, the response indicates success and the
  nested status equals exactly \<^verbatim>\<open>"healthy"\<close> (\<open>spec_healthy\<close>). It returns false
  for every answer with a non-success status whose body is JSON, and for every answer
  whose body is a JSON object with \<^verbatim>\<open>data\<close> absent or an object that is not healthy
  in that sense; it returns true for a healthy answer that carries
  \<^verbatim>\<open>data.checks.solana.latency\<close>. A network failure, or a body that is not JSON, is
  not turned into false: the exception of the library propagates to the caller.
\<close>

theorem check_health_result:
  assumes "session self \<noteq> None"
  shows "(\<forall>b. fst (check_health w self) = Inr b \<longrightarrow>
            (\<exists>resp. session_get w (base_url self @ ''/health'') = Inr resp \<and>
                    b = spec_healthy resp))
       \<and> (\<forall>e. session_get w (base_url self @ ''/health'') = Inl e \<longrightarrow>
            fst (check_health w self) = Inl e)
       \<and> (\<forall>resp e. session_get w (base_url self @ ''/health'') = Inr resp \<and>
              json_result resp = Inl e \<longrightarrow>
            fst (check_health w self) = Inl e)
       \<and> (\<forall>resp body. session_get w (base_url self @ ''/health'') = Inr resp \<and>
              json_result resp = Inr body \<and> \<not> ok resp \<longrightarrow>
            fst (check_health w self) = Inr False)
       \<and> (\<forall>resp body. session_get w (base_url self @ ''/health'') = Inr resp \<and>
              json_result resp = Inr (JObj body) \<and>
              (map_of body ''data'' = None \<or> (\<exists>d. map_of body ''data'' = Some (JObj d))) \<and>
              \<not> spec_healthy resp \<longrightarrow>
            fst (check_health w self) = Inr False)
       \<and> (\<forall>resp body d c s l. session_get w (base_url self @ ''/health'') = Inr resp \<and>
              spec_healthy resp \<and> json_result resp = Inr (JObj body) \<and>
              map_of body ''data'' = Some (JObj d) \<and> map_of d ''checks'' = Some (JObj c) \<and>
              map_of c ''solana'' = Some (JObj s) \<and> map_of s ''latency'' = Some l \<longrightarrow>
            fst (check_health w self) = Inr True)"
proof (intro conjI allI impI)
  fix b assume r: "fst (check_health w self) = Inr b"
  show "\<exists>resp. session_get w (base_url self @ ''/health'') = Inr resp \<and> b = spec_healthy resp"
  proof (cases "session_get w (base_url self @ ''/health'')")
    case (Inl e)
    with assms r show ?thesis by (auto simp: check_health_def fst_io_bind)
  next
    case (Inr resp)
    show ?thesis
    proof (cases "json_result resp")
      case (Inl e)
      with assms r Inr show ?thesis by (auto simp: check_health_def fst_io_bind)
    next
      case body: (Inr result)
      from r check_health_unfold [OF assms Inr body]
      obtain c where c: "health_condition resp result = Inr c" and "b = c"
        by (auto split: sum.splits bool.splits)
      with health_condition_value [OF body c] Inr show ?thesis by simp
    qed
  qed
next
  fix e assume "session_get w (base_url self @ ''/health'') = Inl e"
  with assms show "fst (check_health w self) = Inl e"
    by (auto simp: check_health_def fst_io_bind)
next
  fix resp e
  assume "session_get w (base_url self @ ''/health'') = Inr resp \<and> json_result resp = Inl e"
  with assms show "fst (check_health w self) = Inl e"
    by (auto simp: check_health_def fst_io_bind)
next
  fix resp body
  assume "session_get w (base_url self @ ''/health'') = Inr resp \<and>
          json_result resp = Inr body \<and> \<not> ok resp"
  with assms show "fst (check_health w self) = Inr False"
    by (simp add: check_health_unfold health_condition_not_ok)
next
  fix resp body
  assume "session_get w (base_url self @ ''/health'') = Inr resp \<and>
          json_result resp = Inr (JObj body) \<and>
          (map_of body ''data'' = None \<or> (\<exists>d. map_of body ''data'' = Some (JObj d))) \<and>
          \<not> spec_healthy resp"
  with assms show "fst (check_health w self) = Inr False"
    by (simp add: check_health_unfold health_condition_total)
next
  fix resp body d c s l
  assume a: "session_get w (base_url self @ ''/health'') = Inr resp \<and>
          spec_healthy resp \<and> json_result resp = Inr (JObj body) \<and>
          map_of body ''data'' = Some (JObj d) \<and> map_of d ''checks'' = Some (JObj c) \<and>
          map_of c ''solana'' = Some (JObj s) \<and> map_of s ''latency'' = Some l"
  then have "health_condition resp (JObj body) = Inr True"
    using health_condition_total [of resp body] by auto
  with assms a show "fst (check_health w self) = Inr True"
    by (simp add: check_health_unfold exn_bind_def)
qed

theorem check_health_result_witness:
  "session example_client \<noteq> None \<and>
   spec_healthy \<lparr>status = 200, json_result = Inr example_health_body\<rparr> \<and>
   fst (check_health (example_world 0) example_client) = Inr True \<and>
   fst (check_health offline_world example_client) = Inl (LibraryError ''Cannot connect to host'')"
  using check_health_result [of example_client "example_world 0"]
    check_health_result [of example_client offline_world]
  by (simp add: example_world_def offline_world_def example_client_def example_health_body_def
        spec_healthy_def ok_def)

text \<open>
  C10: called on a client whose session has not been initialized, \<open>check_health\<close> does
  not return false: it raises the same usage error (a \<^verbatim>\<open>RuntimeError\<close>) as
  \<open>build_stake_transaction\<close>, before any request.
\<close>

theorem health_before_initialization:
  "session self = None \<Longrightarrow>
   check_health w self =
     (Inl (RuntimeError ''Client not initialized. Use 'async with' context manager.''), []) \<and>
   fst (check_health w self) \<noteq> Inr False"
  by (simp add: check_health_def io_raise_def not_initialized_def)

theorem health_before_initialization_witness:
  "session (init_client ''secret'' default_base_url) = None \<and>
   check_health (example_world 0) (init_client ''secret'' default_base_url) =
     (Inl (RuntimeError ''Client not initialized. Use 'async with' context manager.''), []) \<and>
   fst (check_health (example_world 0) (init_client ''secret'' default_base_url)) \<noteq> Inr False"
  using health_before_initialization
    [of "init_client ''secret'' default_base_url" "example_world 0"]
  by (simp add: init_client_def)

section \<open>The staking run\<close>


lemma all_bind:
  "list_all P (snd (io_bind m f)) =
     (list_all P (snd m) \<and>
      (case fst m of Inl e \<Rightarrow> True | Inr x \<Rightarrow> list_all P (snd (f x))))"
  by (simp add: snd_io_bind split: sum.splits)


text \<open>What follows the build makes no request to the service, and each call at most once.\<close>

lemma after_build_events:
  "list_all (\<lambda>ev. \<not> is_post ev \<and> ev \<noteq> SessionOpen \<and> ev \<noteq> SessionClose \<and> \<not> uses_session ev)
     (snd (execute_staking_after_build w sc kp d))"
  by (simp add: execute_staking_after_build_def all_bind split: sum.splits)




lemma fst_steps:
  "fst (execute_staking_steps w self sc kp amt v) =
     (case fst (build_stake_transaction w self (public_key kp) amt v) of
        Inl e \<Rightarrow> Inl e
      | Inr d \<Rightarrow> fst (execute_staking_after_build w sc kp d))"
  by (simp add: execute_staking_steps_def fst_io_bind)

lemma snd_steps:
  "snd (execute_staking_steps w self sc kp amt v) =
     snd (build_stake_transaction w self (public_key kp) amt v) @
     (case fst (build_stake_transaction w self (public_key kp) amt v) of
        Inl e \<Rightarrow> []
      | Inr d \<Rightarrow> snd (execute_staking_after_build w sc kp d))"
  by (simp add: execute_staking_steps_def snd_io_bind)


lemma snd_execute_staking:
  "snd (execute_staking w self sc kp amt v) =
     Print (LogBuilding amt) # snd (execute_staking_steps w self sc kp amt v) @
     (case fst (execute_staking_steps w self sc kp amt v) of
        Inl e \<Rightarrow> if is_Exception e then [Print (LogStakingFailed e)] else []
      | Inr _ \<Rightarrow> [])"
  by (simp add: execute_staking_def snd_io_bind snd_log_reraise)

text \<open>
  C4: the events of \<open>execute_staking\<close> are its first printed line, then the events of
  \<open>build_stake_transaction\<close>, then the rest. The build neither signs nor submits, so
  every signing and every \<^verbatim>\<open>send_transaction\<close> lies in the rest, after the build
  has returned; the rest makes no further build request; and when the build fails, the
  rest contains no signing and no submission at all: zero calls to
  \<^verbatim>\<open>send_transaction\<close>.
\<close>

theorem submit_after_build:
  "\<exists>rest.
     snd (execute_staking w self sc kp amt v) =
       Print (LogBuilding amt) #
       snd (build_stake_transaction w self (public_key kp) amt v) @ rest \<and>
     (\<forall>ev \<in> set (snd (build_stake_transaction w self (public_key kp) amt v)).
        \<not> is_sign ev \<and> \<not> is_send ev) \<and>
     (\<forall>ev \<in> set rest. \<not> is_post ev) \<and>
     (\<forall>e. fst (build_stake_transaction w self (public_key kp) amt v) = Inl e \<longrightarrow>
        (\<forall>ev \<in> set rest. \<not> is_sign ev \<and> \<not> is_send ev))"
proof -
  let ?b = "build_stake_transaction w self (public_key kp) amt v"
  let ?rest = "(case fst ?b of Inl e \<Rightarrow> []
                | Inr d \<Rightarrow> snd (execute_staking_after_build w sc kp d)) @
               (case fst (execute_staking_steps w self sc kp amt v) of
                  Inl e \<Rightarrow> if is_Exception e then [Print (LogStakingFailed e)] else []
                | Inr _ \<Rightarrow> [])"
  have "snd (execute_staking w self sc kp amt v) = Print (LogBuilding amt) # snd ?b @ ?rest"
    by (simp add: snd_execute_staking snd_steps)
  moreover have "\<forall>ev \<in> set (snd ?b). \<not> is_sign ev \<and> \<not> is_send ev"
    by (simp add: build_events)
  moreover have "\<forall>ev \<in> set ?rest. \<not> is_post ev"
    using after_build_events [of w sc kp]
    by (auto simp: list_all_iff split: sum.splits if_splits)
  moreover have "\<forall>e. fst ?b = Inl e \<longrightarrow> (\<forall>ev \<in> set ?rest. \<not> is_sign ev \<and> \<not> is_send ev)"
    by (auto simp: fst_steps split: sum.splits if_splits)
  ultimately show ?thesis by blast
qed

theorem submit_after_build_witness:
  "fst (build_stake_transaction rate_limited_world example_client
          (public_key example_keypair) (Finite 1) None) =
     Inl (Exception ''API Error: rate limited'') \<and>
   filter is_send (snd (execute_staking rate_limited_world example_client
          (AsyncClient default_rpc_url) example_keypair (Finite 1) None)) = [] \<and>
   filter is_send (snd (execute_staking (example_world 0) example_client
          (AsyncClient default_rpc_url) example_keypair (Finite 1) None)) =
     [RpcSend (AsyncClient default_rpc_url) [1, 2, 3, 4]]"
  using submit_after_build [of rate_limited_world example_client "AsyncClient default_rpc_url"
          example_keypair "Finite 1" None]
  by (simp add: snd_execute_staking snd_steps fst_steps build_events
        build_stake_transaction_def execute_staking_after_build_def fst_io_bind snd_io_bind
        rate_limited_world_def example_world_def example_client_def init_client_def
        example_keypair_def example_build_body_def metadata_field_def exn_bind_def
        py_add_def ok_def)













section \<open>The scoped session and the workflow\<close>

lemma fst_async_with:
  "fst (async_with w self body) =
     (case session_close w of
        Inl e \<Rightarrow> Inl e
      | Inr _ \<Rightarrow> fst (body (self\<lparr>session := Some ClientSession\<rparr>)))"
  by (simp add: async_with_def aenter_def aexit_def fst_io_bind fst_io_finally)

lemma snd_async_with:
  "snd (async_with w self body) =
     SessionOpen # snd (body (self\<lparr>session := Some ClientSession\<rparr>)) @ [SessionClose]"
  by (simp add: async_with_def aenter_def aexit_def snd_io_bind)

lemma staking_events:
  "list_all (\<lambda>ev. ev \<noteq> SessionOpen \<and> ev \<noteq> SessionClose \<and> (\<forall>x. ev \<noteq> Print (LogResult x)))
     (snd (execute_staking w self sc kp amt v))"
proof -
  have "list_all (\<lambda>ev. ev \<noteq> SessionOpen \<and> ev \<noteq> SessionClose \<and> (\<forall>x. ev \<noteq> Print (LogResult x)))
     (snd (execute_staking_after_build w sc kp d))" for d
    by (simp add: execute_staking_after_build_def all_bind split: sum.splits)
  then show ?thesis
    by (simp add: snd_execute_staking snd_steps build_events split: sum.splits)
qed

lemma health_events:
  "list_all (\<lambda>ev. ev \<noteq> SessionOpen \<and> ev \<noteq> SessionClose \<and> (\<forall>x. ev \<noteq> Print (LogResult x)) \<and>
       \<not> is_post ev \<and> \<not> is_sign ev \<and> \<not> is_send ev \<and> \<not> is_confirm ev)
     (snd (check_health w self))"
  by (simp add: check_health_def all_bind split: sum.splits)

lemma main_steps_session_events:
  "list_all (\<lambda>ev. ev \<noteq> SessionOpen \<and> ev \<noteq> SessionClose) (snd (main_steps w rpc pk c))"
proof -
  have h: "list_all (\<lambda>ev. ev \<noteq> SessionOpen \<and> ev \<noteq> SessionClose) (snd (check_health w c))"
    using health_events [of w c] by (auto simp: list_all_iff)
  have s: "list_all (\<lambda>ev. ev \<noteq> SessionOpen \<and> ev \<noteq> SessionClose)
             (snd (execute_staking w c (AsyncClient rpc) kp (float_literal 1) None))" for kp
    using staking_events [of w c "AsyncClient rpc" kp "float_literal 1" None]
    by (auto simp: list_all_iff)
  show ?thesis
    by (simp add: main_steps_def all_bind Let_def h s split: sum.splits)
qed


lemma main_configured:
  assumes "getenv w ''PHASE_API_KEY'' = Some k" "k \<noteq> []"
    and "getenv w ''AGENT_PRIVATE_KEY'' = Some pk" "pk \<noteq> []"
    and "rpc = (case getenv w ''SOLANA_RPC_URL'' of None \<Rightarrow> default_rpc_url | Some u \<Rightarrow> u)"
  shows "main w =
     io_finally
       (io_log_reraise
          (async_with w (init_client k default_base_url) (main_steps w rpc pk)) LogError)
       (io_call (RpcClose (AsyncClient rpc)) (client_close w (AsyncClient rpc)))"
  using assms by (simp add: main_def Let_def)


lemma snd_main:
  assumes "getenv w ''PHASE_API_KEY'' = Some k" "k \<noteq> []"
    and "getenv w ''AGENT_PRIVATE_KEY'' = Some pk" "pk \<noteq> []"
    and "rpc = (case getenv w ''SOLANA_RPC_URL'' of None \<Rightarrow> default_rpc_url | Some u \<Rightarrow> u)"
    and "c = (init_client k default_base_url)\<lparr>session := Some ClientSession\<rparr>"
  shows "snd (main w) =
     SessionOpen # snd (main_steps w rpc pk c) @
     SessionClose #
     (case (case session_close w of Inl e \<Rightarrow> Inl e | Inr _ \<Rightarrow> fst (main_steps w rpc pk c)) of
        Inl e \<Rightarrow> if is_Exception e then [Print (LogError e)] else []
      | Inr _ \<Rightarrow> []) @
     [RpcClose (AsyncClient rpc)]"
  by (simp add: main_configured [OF assms(1-5)] snd_log_reraise snd_async_with fst_async_with assms(6)
        cong: sum.case_cong)

lemma fst_main:
  assumes "getenv w ''PHASE_API_KEY'' = Some k" "k \<noteq> []"
    and "getenv w ''AGENT_PRIVATE_KEY'' = Some pk" "pk \<noteq> []"
    and "rpc = (case getenv w ''SOLANA_RPC_URL'' of None \<Rightarrow> default_rpc_url | Some u \<Rightarrow> u)"
    and "c = (init_client k default_base_url)\<lparr>session := Some ClientSession\<rparr>"
  shows "fst (main w) =
     (case client_close w (AsyncClient rpc) of
        Inl e \<Rightarrow> Inl e
      | Inr _ \<Rightarrow> (case session_close w of Inl e \<Rightarrow> Inl e | Inr _ \<Rightarrow> fst (main_steps w rpc pk c)))"
  by (simp add: main_configured [OF assms(1-5)] fst_io_finally fst_async_with assms(6)
        cong: sum.case_cong)

lemma main_steps_low_balance:
  assumes "exn_bind (b64decode w (JStr pk)) (from_secret_key w) = Inr kp"
    and "fst (check_health w c) = Inr h"
    and "get_balance w (AsyncClient rpc) (public_key kp) = Inr resp"
    and "exn_bind (py_getitem resp ''result'') (\<lambda>r. py_getitem r ''value'') = Inr lam"
    and "py_truediv lam 1000000000 = Inr bal"
    and "float_lt bal (float_literal (11 / 10))"
  shows "main_steps w rpc pk c =
     (Inr (), snd (check_health w c) @
        [RpcGetBalance (AsyncClient rpc) (public_key kp),
         Print (LogBalance bal), Print (LogInsufficient bal)])"
  using assms by (simp add: main_steps_def Let_def prod_eq_iff fst_io_bind snd_io_bind)

text \<open>
  C6: the session is opened on entering the \<^verbatim>\<open>async with\<close> block and closed on
  leaving it, whatever the outcome of the body, a value or an exception: the events of
  the block are the opening, the events of the body, the closing. In the workflow, once
  the configuration is present, the opening is the first event; the closing follows the
  body on every path, normal or failing; the session is opened and closed once; and
  nothing after the closing uses the session.
\<close>

theorem session_scoped:
  "snd (async_with w self body) =
     SessionOpen # snd (body (self\<lparr>session := Some ClientSession\<rparr>)) @ [SessionClose] \<and>
   (\<forall>k pk. getenv w ''PHASE_API_KEY'' = Some k \<and> k \<noteq> [] \<and>
      getenv w ''AGENT_PRIVATE_KEY'' = Some pk \<and> pk \<noteq> [] \<longrightarrow>
      (\<exists>used rest.
         snd (main w) = SessionOpen # used @ SessionClose # rest \<and>
         (\<forall>ev \<in> set (used @ rest). ev \<noteq> SessionOpen \<and> ev \<noteq> SessionClose) \<and>
         (\<forall>ev \<in> set rest. \<not> uses_session ev)))"
proof (intro conjI allI impI)
  show "snd (async_with w self body) =
     SessionOpen # snd (body (self\<lparr>session := Some ClientSession\<rparr>)) @ [SessionClose]"
    by (rule snd_async_with)
next
  fix k pk
  assume cfg: "getenv w ''PHASE_API_KEY'' = Some k \<and> k \<noteq> [] \<and>
      getenv w ''AGENT_PRIVATE_KEY'' = Some pk \<and> pk \<noteq> []"
  define rpc where
    "rpc = (case getenv w ''SOLANA_RPC_URL'' of None \<Rightarrow> default_rpc_url | Some u \<Rightarrow> u)"
  define c where "c = (init_client k default_base_url)\<lparr>session := Some ClientSession\<rparr>"
  let ?used = "snd (main_steps w rpc pk c)"
  let ?rest = "(case (case session_close w of Inl e \<Rightarrow> Inl e
                      | Inr _ \<Rightarrow> fst (main_steps w rpc pk c)) of
                  Inl e \<Rightarrow> if is_Exception e then [Print (LogError e)] else []
                | Inr _ \<Rightarrow> []) @ [RpcClose (AsyncClient rpc)]"
  have "snd (main w) = SessionOpen # ?used @ SessionClose # ?rest"
    using cfg snd_main [of w k pk rpc c] rpc_def c_def by simp
  moreover have "\<forall>ev \<in> set ?rest. ev \<noteq> SessionOpen \<and> ev \<noteq> SessionClose \<and> \<not> uses_session ev"
    by (auto split: sum.splits if_splits)
  moreover have "\<forall>ev \<in> set ?used. ev \<noteq> SessionOpen \<and> ev \<noteq> SessionClose"
    using main_steps_session_events [of w rpc pk c] by (simp add: list_all_iff)
  ultimately show "\<exists>used rest.
         snd (main w) = SessionOpen # used @ SessionClose # rest \<and>
         (\<forall>ev \<in> set (used @ rest). ev \<noteq> SessionOpen \<and> ev \<noteq> SessionClose) \<and>
         (\<forall>ev \<in> set rest. \<not> uses_session ev)"
    by (intro exI [of _ ?used] exI [of _ ?rest]) auto
qed

theorem session_scoped_witness:
  "getenv offline_world ''PHASE_API_KEY'' = Some ''secret'' \<and>
   getenv offline_world ''AGENT_PRIVATE_KEY'' = Some ''AQID'' \<and>
   main offline_world =
     (Inl (LibraryError ''Cannot connect to host''),
      [SessionOpen, HttpGet ''https://staking-api.phase.com/health'', SessionClose,
       Print (LogError (LibraryError ''Cannot connect to host'')),
       RpcClose (AsyncClient ''https://api.mainnet-beta.solana.com'')])"
proof -
  have run: "main offline_world =
     (Inl (LibraryError ''Cannot connect to host''),
      [SessionOpen, HttpGet ''https://staking-api.phase.com/health'', SessionClose,
       Print (LogError (LibraryError ''Cannot connect to host'')),
       RpcClose (AsyncClient ''https://api.mainnet-beta.solana.com'')])"
    by code_simp
  show ?thesis
    using session_scoped [of offline_world] run
    by (simp add: offline_world_def example_world_def)
qed



text \<open>
  C1, as stated, fails at its own scenario: with a wallet of 1 050 000 000 lamports
  (1.05 in whole units, below 1.1) the workflow raises nothing. It prints the
  insufficient-balance line and returns normally; the health check has been requested
  before the balance query, and the session and the RPC client are closed after it.
\<close>

theorem low_balance_counterexample:
  "py_truediv (JInt 1050000000) 1000000000 =
     Inr (Finite (4728779608739021 / 4503599627370496)) \<and>
   float_lt (Finite (4728779608739021 / 4503599627370496)) (float_literal (11 / 10)) \<and>
   main (example_world 1050000000) =
     (Inr (),
      [SessionOpen,
       HttpGet ''https://staking-api.phase.com/health'',
       Print (LogHealthy (JInt 42)),
       RpcGetBalance (AsyncClient ''https://api.mainnet-beta.solana.com'')
         (PublicKey ''AgentWallet''),
       Print (LogBalance (Finite (4728779608739021 / 4503599627370496))),
       Print (LogInsufficient (Finite (4728779608739021 / 4503599627370496))),
       SessionClose,
       RpcClose (AsyncClient ''https://api.mainnet-beta.solana.com'')])"
  by code_simp

text \<open>
  C1, amended: in every run of the workflow that reaches the balance query and finds a
  balance, in whole units, below 1.1, the workflow stops before calling
  \<open>build_stake_transaction\<close>: it prints the balance and the insufficient-balance line
  and returns normally, without raising any exception of its own (only a failure while
  closing the session or the RPC client can still surface). The run makes no build
  request, no signing, no submission and no confirmation; its events are the opening of
  the session, those of the health check, the balance query, the two printed lines, and
  the closing of the session and of the RPC client. (By \<open>balance_below_threshold_iff\<close>
  a balance reported as an integer number of lamports is below 1.1 exactly when it is
  below 1 100 000 000 lamports.)
\<close>

theorem low_balance_stops:
  assumes "getenv w ''PHASE_API_KEY'' = Some k" "k \<noteq> []"
    and "getenv w ''AGENT_PRIVATE_KEY'' = Some pk" "pk \<noteq> []"
    and "rpc = (case getenv w ''SOLANA_RPC_URL'' of None \<Rightarrow> default_rpc_url | Some u \<Rightarrow> u)"
    and "c = (init_client k default_base_url)\<lparr>session := Some ClientSession\<rparr>"
    and "b64decode w (JStr pk) = Inr secret" "from_secret_key w secret = Inr kp"
    and "fst (check_health w c) = Inr h"
    and "get_balance w (AsyncClient rpc) (public_key kp) = Inr resp"
    and "py_getitem resp ''result'' = Inr res" "py_getitem res ''value'' = Inr lamports"
    and "py_truediv lamports 1000000000 = Inr balance_sol"
    and "float_lt balance_sol (float_literal (11 / 10))"
  shows "snd (main w) =
           SessionOpen # snd (check_health w c) @
           [RpcGetBalance (AsyncClient rpc) (public_key kp),
            Print (LogBalance balance_sol), Print (LogInsufficient balance_sol),
            SessionClose] @
           (case session_close w of
              Inl e \<Rightarrow> if is_Exception e then [Print (LogError e)] else []
            | Inr _ \<Rightarrow> []) @
           [RpcClose (AsyncClient rpc)]
       \<and> fst (main w) =
           (case client_close w (AsyncClient rpc) of
              Inl e \<Rightarrow> Inl e
            | Inr _ \<Rightarrow> (case session_close w of Inl e \<Rightarrow> Inl e | Inr _ \<Rightarrow> Inr ()))
       \<and> (\<forall>ev \<in> set (snd (main w)).
            \<not> is_post ev \<and> \<not> is_sign ev \<and> \<not> is_send ev \<and> \<not> is_confirm ev)"
proof -
  have steps: "main_steps w rpc pk c =
     (Inr (), snd (check_health w c) @
        [RpcGetBalance (AsyncClient rpc) (public_key kp),
         Print (LogBalance balance_sol), Print (LogInsufficient balance_sol)])"
  proof (rule main_steps_low_balance)
    show "exn_bind (b64decode w (JStr pk)) (from_secret_key w) = Inr kp"
      by (simp add: exn_bind_def assms(7,8))
    show "exn_bind (py_getitem resp ''result'') (\<lambda>r. py_getitem r ''value'') = Inr lamports"
      by (simp add: exn_bind_def assms(11,12))
  qed (rule assms(9,10,13,14))+
  have trace: "snd (main w) =
           SessionOpen # snd (check_health w c) @
           [RpcGetBalance (AsyncClient rpc) (public_key kp),
            Print (LogBalance balance_sol), Print (LogInsufficient balance_sol),
            SessionClose] @
           (case session_close w of
              Inl e \<Rightarrow> if is_Exception e then [Print (LogError e)] else []
            | Inr _ \<Rightarrow> []) @
           [RpcClose (AsyncClient rpc)]"
    unfolding snd_main [OF assms(1-6)] steps fst_conv snd_conv
    by (cases "session_close w") simp_all
  have result: "fst (main w) =
           (case client_close w (AsyncClient rpc) of
              Inl e \<Rightarrow> Inl e
            | Inr _ \<Rightarrow> (case session_close w of Inl e \<Rightarrow> Inl e | Inr _ \<Rightarrow> Inr ()))"
    unfolding fst_main [OF assms(1-6)] steps fst_conv by (rule refl)
  have "\<forall>ev \<in> set (snd (main w)).
            \<not> is_post ev \<and> \<not> is_sign ev \<and> \<not> is_send ev \<and> \<not> is_confirm ev"
    unfolding trace using health_events [of w c]
    by (auto simp: list_all_iff split: sum.splits if_splits)
  with trace result show ?thesis by blast
qed

theorem low_balance_stops_witness:
  "getenv (example_world 1050000000) ''PHASE_API_KEY'' = Some ''secret'' \<and>
   getenv (example_world 1050000000) ''AGENT_PRIVATE_KEY'' = Some ''AQID'' \<and>
   get_balance (example_world 1050000000) (AsyncClient default_rpc_url)
       (public_key example_keypair) =
     Inr (JObj [(''result'', JObj [(''value'', JInt 1050000000)])]) \<and>
   py_truediv (JInt 1050000000) 1000000000 =
     Inr (Finite (4728779608739021 / 4503599627370496)) \<and>
   float_lt (Finite (4728779608739021 / 4503599627370496)) (float_literal (11 / 10)) \<and>
   fst (main (example_world 1050000000)) = Inr () \<and>
   snd (main (example_world 1050000000)) =
     [SessionOpen,
      HttpGet ''https://staking-api.phase.com/health'',
      Print (LogHealthy (JInt 42)),
      RpcGetBalance (AsyncClient default_rpc_url) (public_key example_keypair),
      Print (LogBalance (Finite (4728779608739021 / 4503599627370496))),
      Print (LogInsufficient (Finite (4728779608739021 / 4503599627370496))),
      SessionClose,
      RpcClose (AsyncClient default_rpc_url)]"
proof -
  let ?w = "example_world 1050000000"
  have env: "getenv ?w ''PHASE_API_KEY'' = Some ''secret''"
    "getenv ?w ''AGENT_PRIVATE_KEY'' = Some ''AQID''"
    "default_rpc_url = (case getenv ?w ''SOLANA_RPC_URL'' of
                          None \<Rightarrow> default_rpc_url | Some u \<Rightarrow> u)"
    by (simp_all add: example_world_def)
  have calls: "b64decode ?w (JStr ''AQID'') = Inr [1, 2, 3]"
    "from_secret_key ?w [1, 2, 3] = Inr example_keypair"
    "get_balance ?w (AsyncClient default_rpc_url) (public_key example_keypair) =
       Inr (JObj [(''result'', JObj [(''value'', JInt 1050000000)])])"
    "session_close ?w = Inr ()" "client_close ?w (AsyncClient default_rpc_url) = Inr ()"
    by (simp_all add: example_world_def)
  have health: "fst (check_health ?w example_client) = Inr True"
    "snd (check_health ?w example_client) =
       [HttpGet ''https://staking-api.phase.com/health'', Print (LogHealthy (JInt 42))]"
    by code_simp+
  have div: "py_truediv (JInt 1050000000) 1000000000 =
     Inr (Finite (4728779608739021 / 4503599627370496))"
    by code_simp
  have lt: "float_lt (Finite (4728779608739021 / 4503599627370496)) (float_literal (11 / 10))"
    by code_simp
  from low_balance_stops [of ?w "''secret''" "''AQID''" default_rpc_url example_client
      "[1, 2, 3]" example_keypair True
      "JObj [(''result'', JObj [(''value'', JInt 1050000000)])]"
      "JObj [(''value'', JInt 1050000000)]" "JInt 1050000000"
      "Finite (4728779608739021 / 4503599627370496)",
      OF env(1) _ env(2) _ env(3) _ calls(1,2) health(1) calls(3) _ _ div lt]
  show ?thesis
    using env calls div lt health(2) by (simp add: example_client_def)
qed

end
